theory Spec2Isabelle
  imports Main "HOL-Library.Word"
begin

unbundle bit_operations_syntax

section \<open>A shallow embedding of the CHIP-8 interpreter (main.c)\<close>

text \<open>
  The interpreter state of \<^verbatim>\<open>struct State\<close> is a record. The two heap buffers
  (\<^verbatim>\<open>memory\<close>, 4096 bytes, and \<^verbatim>\<open>video_buffer\<close>, 32 rows of 64 bits) and the register
  array are stores from an index to a machine word. C leaves an access outside an
  allocated buffer undefined; the model checks every index that the code computes from
  run-time data against \<^verbatim>\<open>MEMORY_SIZE\<close> and returns the error \<open>OutOfBounds\<close> where the C
  program would leave the buffer. Integer promotion is written out: an expression that C
  evaluates in \<^verbatim>\<open>int\<close> is evaluated on \<open>int\<close> here, and the conversion back to a
  fixed-width type is \<open>word_of_int\<close>. Text printed by \<^verbatim>\<open>printf\<close> is not part of the
  state. The value returned by \<^verbatim>\<open>rand()\<close> is a parameter of the step function.
\<close>

subsection \<open>Constants\<close>

definition MEMORY_SIZE :: nat where
  "MEMORY_SIZE = 0x1000"

definition PROGRAM_START :: nat where
  "PROGRAM_START = 0x200"

definition STACK_START :: nat where
  "STACK_START = 0x52"

definition FONT_START :: nat where
  "FONT_START = 0x50"

definition FONTS :: "8 word list" where
  "FONTS =
    [0xF0, 0x90, 0x90, 0x90, 0xF0,
     0x20, 0x60, 0x20, 0x20, 0x70,
     0xF0, 0x10, 0xF0, 0x80, 0xF0,
     0xF0, 0x10, 0xF0, 0x10, 0xF0,
     0x90, 0x90, 0xF0, 0x10, 0x10,
     0xF0, 0x80, 0xF0, 0x10, 0xF0,
     0xF0, 0x80, 0xF0, 0x90, 0xF0,
     0xF0, 0x10, 0x20, 0x40, 0x40,
     0xF0, 0x90, 0xF0, 0x90, 0xF0,
     0xF0, 0x90, 0xF0, 0x10, 0xF0,
     0xF0, 0x90, 0xF0, 0x90, 0x90,
     0xE0, 0x90, 0xE0, 0x90, 0xE0,
     0xF0, 0x80, 0x80, 0x80, 0xF0,
     0xE0, 0x90, 0x90, 0x90, 0xE0,
     0xF0, 0x80, 0xF0, 0x80, 0xF0,
     0xF0, 0x80, 0xF0, 0x80, 0x80]"

subsection \<open>The state\<close>

datatype error = OutOfBounds

record State =
  memory :: "nat \<Rightarrow> 8 word"
  regs_v :: "nat \<Rightarrow> 8 word"
  delay_timer :: "8 word"
  sound_timer :: "8 word"
  keycode :: "8 word"
  pc :: "16 word"
  sp :: "16 word"
  reg_i :: "16 word"
  end_of_program :: bool
  waiting_for_key :: bool
  video_buffer :: "nat \<Rightarrow> 64 word"

text \<open>
  \<^verbatim>\<open>state_init\<close>, on the path where every allocation succeeds: zeroed memory with the
  font table copied to \<^verbatim>\<open>FONT_START\<close>, zeroed registers and display, no key pressed.
\<close>

definition state_init :: State where
  "state_init =
    \<lparr> memory = (\<lambda>a. if FONT_START \<le> a \<and> a < FONT_START + length FONTS
                      then FONTS ! (a - FONT_START) else 0),
      regs_v = (\<lambda>_. 0),
      delay_timer = 0,
      sound_timer = 0,
      keycode = 16,
      pc = of_nat PROGRAM_START,
      sp = of_nat STACK_START,
      reg_i = 0,
      end_of_program = False,
      waiting_for_key = False,
      video_buffer = (\<lambda>_. 0) \<rparr>"

subsection \<open>The call stack\<close>

text \<open>
  \<^verbatim>\<open>state_push_to_stack\<close> swaps the two bytes of the value (the shifts are evaluated in
  \<^verbatim>\<open>int\<close> and the result is cut to 16 bits) and copies the object representation of the
  swapped value to \<^verbatim>\<open>memory[sp]\<close>, \<^verbatim>\<open>memory[sp + 1]\<close>. The copy is modelled for a
  little-endian host, the low byte first: the program targets the Microsoft C library
  (\<^verbatim>\<open>fopen_s\<close>), and its own \<^verbatim>\<open>// Flip endianness\<close> presumes that byte order.
\<close>

definition state_push_to_stack :: "State \<Rightarrow> 16 word \<Rightarrow> error + State" where
  "state_push_to_stack s v =
    (let v' = (word_of_int (push_bit 8 (uint v) OR drop_bit 8 (uint v)) :: 16 word);
         a = unat (sp s)
     in if a + 1 < MEMORY_SIZE
        then Inr (s\<lparr>memory := (memory s)(a := ucast v', a + 1 := ucast (drop_bit 8 v')),
                    sp := sp s + 2\<rparr>)
        else Inl OutOfBounds)"

definition state_pop_from_stack :: "State \<Rightarrow> error + (16 word \<times> State)" where
  "state_pop_from_stack s =
    (let s1 = s\<lparr>sp := sp s - 2\<rparr>;
         a = unat (sp s1)
     in if a + 1 < MEMORY_SIZE
        then (let address = (word_of_int (push_bit 8 (uint (memory s1 a))
                                            OR uint (memory s1 (a + 1))) :: 16 word)
              in Inr (address, s1\<lparr>memory := (memory s1)(a := 0, a + 1 := 0)\<rparr>))
        else Inl OutOfBounds)"

subsection \<open>Display instructions\<close>

definition instruction_clear_video :: "State \<Rightarrow> State" where
  "instruction_clear_video s = s\<lparr>video_buffer := (\<lambda>_. 0)\<rparr>"

text \<open>
  The body of the \<^verbatim>\<open>for\<close> loop of \<^verbatim>\<open>instruction_draw_sprite\<close>, from row \<open>row\<close> on.
  \<^verbatim>\<open>y\<close> is a \<^verbatim>\<open>uint8_t\<close>; the index \<^verbatim>\<open>reg_i + row\<close> is an \<^verbatim>\<open>int\<close> and does not wrap.
\<close>

function draw_rows :: "nat \<Rightarrow> nat \<Rightarrow> nat \<Rightarrow> nat \<Rightarrow> State \<Rightarrow> error + State" where
  "draw_rows start_x start_y height row s =
    (if row < height then
       (let y = (start_y + row) mod 256 in
        if y \<ge> 32 then Inr s
        else if unat (reg_i s) + row < MEMORY_SIZE then
          (let sprite_mask = (ucast (memory s (unat (reg_i s) + row)) :: 64 word);
               sprite_mask = drop_bit start_x (push_bit 55 sprite_mask);
               row_data = video_buffer s y;
               s1 = s\<lparr>video_buffer := (video_buffer s)(y := row_data XOR sprite_mask)\<rparr>;
               s2 = (if row_data AND sprite_mask \<noteq> 0
                     then s1\<lparr>regs_v := (regs_v s1)(0xF := 1)\<rparr> else s1)
           in draw_rows start_x start_y height (row + 1) s2)
        else Inl OutOfBounds)
     else Inr s)"
  by pat_completeness auto
termination
  by (relation "measure (\<lambda>(start_x, start_y, height, row, s). height - row)") auto

declare draw_rows.simps [simp del]

definition instruction_draw_sprite :: "State \<Rightarrow> nat \<Rightarrow> nat \<Rightarrow> nat \<Rightarrow> error + State" where
  "instruction_draw_sprite s regx regy height =
    (let start_x = unat (regs_v s regx mod 64);
         start_y = unat (regs_v s regy mod 32);
         s1 = s\<lparr>regs_v := (regs_v s)(0xF := 0)\<rparr>
     in draw_rows start_x start_y height 0 s1)"

subsection \<open>Decimal digits\<close>

definition instruction_decimal_digits :: "State \<Rightarrow> 8 word \<Rightarrow> error + State" where
  "instruction_decimal_digits s v =
    (let i = unat (reg_i s)
     in if i + 2 < MEMORY_SIZE
        then Inr (s\<lparr>memory := (memory s)(i := v div 100,
                                          i + 1 := (v div 10) mod 10,
                                          i + 2 := v mod 10)\<rparr>)
        else Inl OutOfBounds)"

subsection \<open>Decoding\<close>

text \<open>
  The opcode is the big-endian 16-bit word at \<^verbatim>\<open>pc\<close>; \<^verbatim>\<open>state_step\<close> reads it only when
  \<^verbatim>\<open>pc < MEMORY_SIZE - 1\<close>, so both bytes are inside the buffer. The fields are the
  local variables of \<^verbatim>\<open>state_step\<close>; the nibbles index the register array and are
  kept as natural numbers (each is below 16).
\<close>

definition fetch_opcode :: "State \<Rightarrow> 16 word" where
  "fetch_opcode s =
    word_of_int (push_bit 8 (uint (memory s (unat (pc s))))
                   OR uint (memory s (unat (pc s) + 1)))"

definition nibble1 :: "16 word \<Rightarrow> nat" where
  "nibble1 opcode = unat (drop_bit 12 opcode)"

definition nibble2 :: "16 word \<Rightarrow> nat" where
  "nibble2 opcode = unat (drop_bit 8 (opcode AND 0xF00))"

definition nibble3 :: "16 word \<Rightarrow> nat" where
  "nibble3 opcode = unat (drop_bit 4 (opcode AND 0xF0))"

definition nibble4 :: "16 word \<Rightarrow> nat" where
  "nibble4 opcode = unat (opcode AND 0xF)"

definition nn :: "16 word \<Rightarrow> 8 word" where
  "nn opcode = ucast (opcode AND 0xFF)"

definition nnn :: "16 word \<Rightarrow> 16 word" where
  "nnn opcode = opcode AND 0xFFF"

subsection \<open>One instruction\<close>

definition set_reg :: "State \<Rightarrow> nat \<Rightarrow> 8 word \<Rightarrow> State" where
  "set_reg s r v = s\<lparr>regs_v := (regs_v s)(r := v)\<rparr>"

text \<open>
  The \<^verbatim>\<open>switch\<close> of \<^verbatim>\<open>state_step\<close>. The result is the new state together with the
  local flag \<^verbatim>\<open>should_step\<close>. Comparisons of two registers after an addition or a
  subtraction are made in \<^verbatim>\<open>int\<close>, as C promotes both operands. Two assignments in a row
  are two state updates in a row: the second reads the registers the first has written.
\<close>

definition exec_0 :: "State \<Rightarrow> 16 word \<Rightarrow> error + (State \<times> bool)" where
  "exec_0 s opcode =
    (if opcode = 0x00E0 then Inr (instruction_clear_video s, True)
     else if opcode = 0x00EE then
       (case state_pop_from_stack s of
          Inl e \<Rightarrow> Inl e
        | Inr (address, s1) \<Rightarrow> Inr (s1\<lparr>pc := address\<rparr>, False))
     else Inr (s, True))"

definition exec_8 :: "State \<Rightarrow> 16 word \<Rightarrow> State" where
  "exec_8 s opcode =
    (let x = nibble2 opcode; y = nibble3 opcode; n = nibble4 opcode in
     if n = 0x0 then set_reg s x (regs_v s y)
     else if n = 0x1 then set_reg s x (regs_v s x OR regs_v s y)
     else if n = 0x2 then set_reg s x (regs_v s x AND regs_v s y)
     else if n = 0x3 then set_reg s x (regs_v s x XOR regs_v s y)
     else if n = 0x4 then
       (let s1 = set_reg s 0xF
                   (of_bool (uint (regs_v s x) > uint (regs_v s x) + uint (regs_v s y)))
        in set_reg s1 x (regs_v s1 x + regs_v s1 y))
     else if n = 0x5 then
       (let s1 = set_reg s 0xF
                   (of_bool (uint (regs_v s x) < uint (regs_v s x) - uint (regs_v s y)))
        in set_reg s1 x (regs_v s1 x - regs_v s1 y))
     else if n = 0x6 then
       (let s1 = set_reg s 0xF (regs_v s x AND 0x1)
        in set_reg s1 x (drop_bit 1 (regs_v s1 x)))
     else if n = 0x7 then
       (let s1 = set_reg s 0xF
                   (of_bool (uint (regs_v s y) < uint (regs_v s y) - uint (regs_v s x)))
        in set_reg s1 x (regs_v s1 y - regs_v s1 x))
     else if n = 0xE then
       (let s1 = set_reg s 0xF (drop_bit 7 (regs_v s x))
        in set_reg s1 x (push_bit 1 (regs_v s1 x)))
     else s)"

definition exec_E :: "State \<Rightarrow> 16 word \<Rightarrow> State \<times> bool" where
  "exec_E s opcode =
    (let x = nibble2 opcode in
     if nn opcode = 0x9E then
       (if keycode s = regs_v s x then (s\<lparr>pc := pc s + 4\<rparr>, False) else (s, True))
     else if nn opcode = 0xA1 then
       (if keycode s \<noteq> regs_v s x then (s\<lparr>pc := pc s + 4\<rparr>, False) else (s, True))
     else (s, True))"

definition exec_F :: "State \<Rightarrow> 16 word \<Rightarrow> error + (State \<times> bool)" where
  "exec_F s opcode =
    (let x = nibble2 opcode; i = unat (reg_i s) in
     if nn opcode = 0x07 then Inr (set_reg s x (delay_timer s), True)
     else if nn opcode = 0x0A then
       (if keycode s \<noteq> 16 then Inr (set_reg s x (keycode s), True) else Inr (s, False))
     else if nn opcode = 0x15 then Inr (s\<lparr>delay_timer := regs_v s x\<rparr>, True)
     else if nn opcode = 0x18 then Inr (s\<lparr>sound_timer := regs_v s x\<rparr>, True)
     else if nn opcode = 0x1E then Inr (s\<lparr>reg_i := reg_i s + ucast (regs_v s x)\<rparr>, True)
     else if nn opcode = 0x29 then
       Inr (s\<lparr>reg_i := of_nat (FONT_START + unat (regs_v s x))\<rparr>, True)
     else if nn opcode = 0x33 then
       (case instruction_decimal_digits s (regs_v s x) of
          Inl e \<Rightarrow> Inl e
        | Inr s1 \<Rightarrow> Inr (s1, True))
     else if nn opcode = 0x55 then
       (if i + x < MEMORY_SIZE
        then Inr (s\<lparr>memory := (\<lambda>a. if i \<le> a \<and> a \<le> i + x then regs_v s (a - i)
                                      else memory s a)\<rparr>, True)
        else Inl OutOfBounds)
     else if nn opcode = 0x65 then
       (if i + x < MEMORY_SIZE
        then Inr (s\<lparr>regs_v := (\<lambda>r. if r \<le> x then memory s (i + r) else regs_v s r)\<rparr>, True)
        else Inl OutOfBounds)
     else Inr (s, True))"

definition dispatch :: "int \<Rightarrow> State \<Rightarrow> 16 word \<Rightarrow> error + (State \<times> bool)" where
  "dispatch rnd s opcode =
    (let n1 = nibble1 opcode; x = nibble2 opcode; y = nibble3 opcode in
     if n1 = 0x0 then exec_0 s opcode
     else if n1 = 0x1 then Inr (s\<lparr>pc := nnn opcode\<rparr>, False)
     else if n1 = 0x2 then
       (case state_push_to_stack s (pc s + 0x2) of
          Inl e \<Rightarrow> Inl e
        | Inr s1 \<Rightarrow> Inr (s1\<lparr>pc := nnn opcode\<rparr>, False))
     else if n1 = 0x3 then
       (if regs_v s x = nn opcode then Inr (s\<lparr>pc := pc s + 4\<rparr>, False) else Inr (s, True))
     else if n1 = 0x4 then
       (if regs_v s x \<noteq> nn opcode then Inr (s\<lparr>pc := pc s + 4\<rparr>, False) else Inr (s, True))
     else if n1 = 0x5 then
       (if regs_v s x = regs_v s y then Inr (s\<lparr>pc := pc s + 4\<rparr>, False) else Inr (s, True))
     else if n1 = 0x6 then Inr (set_reg s x (nn opcode), True)
     else if n1 = 0x7 then Inr (set_reg s x (regs_v s x + nn opcode), True)
     else if n1 = 0x8 then Inr (exec_8 s opcode, True)
     else if n1 = 0x9 then
       (if regs_v s x \<noteq> regs_v s y then Inr (s\<lparr>pc := pc s + 4\<rparr>, False) else Inr (s, True))
     else if n1 = 0xA then Inr (s\<lparr>reg_i := nnn opcode\<rparr>, True)
     else if n1 = 0xC then Inr (set_reg s x (word_of_int (rnd AND uint (nn opcode))), True)
     else if n1 = 0xD then
       (case instruction_draw_sprite s x y (nibble4 opcode) of
          Inl e \<Rightarrow> Inl e
        | Inr s1 \<Rightarrow> Inr (s1, True))
     else if n1 = 0xE then Inr (exec_E s opcode)
     else if n1 = 0xF then exec_F s opcode
     else Inr (s, True))"

text \<open>
  \<^verbatim>\<open>state_step\<close>. When \<^verbatim>\<open>pc \<ge> MEMORY_SIZE - 1\<close> the function evaluates the expression
  \<^verbatim>\<open>state->end_of_program\<close>, which assigns nothing, and returns.
\<close>

definition state_step :: "int \<Rightarrow> State \<Rightarrow> error + State" where
  "state_step rnd s =
    (if unat (pc s) \<ge> MEMORY_SIZE - 1 then Inr s
     else
       (case dispatch rnd s (fetch_opcode s) of
          Inl e \<Rightarrow> Inl e
        | Inr (s1, should_step) \<Rightarrow>
            Inr (if should_step then s1\<lparr>pc := pc s1 + 2\<rparr> else s1)))"

subsection \<open>The font region and the machine states used as concrete inputs\<close>

text \<open>
  The addresses that \<^verbatim>\<open>state_init\<close> fills with \<^verbatim>\<open>memcpy(&memory[FONT_START], &FONTS,
  sizeof(FONTS))\<close>: bytes 0x50 to 0x9F.
\<close>

definition font_region :: "nat set" where
  "font_region = {FONT_START ..< FONT_START + length FONTS}"

text \<open>
  Each state below is the initial state with a short program at \<^verbatim>\<open>PROGRAM_START\<close> and,
  where the instruction needs them, register values that a \<^verbatim>\<open>6xnn\<close> or \<^verbatim>\<open>Annn\<close>
  instruction would have loaded before.
\<close>

definition s_add :: State where
  \<comment> \<open>\<^verbatim>\<open>8014\<close> with V0 = 200 and V1 = 100\<close>
  "s_add = state_init\<lparr>memory := (memory state_init)(0x200 := 0x80, 0x201 := 0x14),
                       regs_v := (regs_v state_init)(0 := 200, 1 := 100)\<rparr>"

definition s_sub :: State where
  \<comment> \<open>\<^verbatim>\<open>8015\<close> with V0 = 5 and V1 = 3\<close>
  "s_sub = state_init\<lparr>memory := (memory state_init)(0x200 := 0x80, 0x201 := 0x15),
                       regs_v := (regs_v state_init)(0 := 5, 1 := 3)\<rparr>"

definition s_store_font :: State where
  \<comment> \<open>the program \<^verbatim>\<open>A050 F055\<close>: point I at the font table, then store V0\<close>
  "s_store_font = state_init\<lparr>memory := (memory state_init)
                      (0x200 := 0xA0, 0x201 := 0x50, 0x202 := 0xF0, 0x203 := 0x55)\<rparr>"

definition s_call :: State where
  \<comment> \<open>\<^verbatim>\<open>2300\<close>: the first call of a program\<close>
  "s_call = state_init\<lparr>memory := (memory state_init)(0x200 := 0x23, 0x201 := 0x00)\<rparr>"

definition s_glyph :: State where
  \<comment> \<open>\<^verbatim>\<open>F129\<close> with V1 = 1\<close>
  "s_glyph = state_init\<lparr>memory := (memory state_init)(0x200 := 0xF1, 0x201 := 0x29),
                         regs_v := (regs_v state_init)(1 := 1)\<rparr>"

definition s_draw :: State where
  \<comment> \<open>\<^verbatim>\<open>D011\<close> with V0 = 60, V1 = 0, I = 0x300 and the sprite row 0xFF at 0x300\<close>
  "s_draw = state_init\<lparr>memory := (memory state_init)
                          (0x200 := 0xD0, 0x201 := 0x11, 0x300 := 0xFF),
                        regs_v := (regs_v state_init)(0 := 60, 1 := 0),
                        reg_i := 0x300\<rparr>"

definition s_jump_end :: State where
  \<comment> \<open>\<^verbatim>\<open>1FFF\<close>: jump to the last byte of memory\<close>
  "s_jump_end = state_init\<lparr>memory := (memory state_init)(0x200 := 0x1F, 0x201 := 0xFF)\<rparr>"

definition s_wait :: State where
  \<comment> \<open>\<^verbatim>\<open>F30A\<close>, no key pressed\<close>
  "s_wait = state_init\<lparr>memory := (memory state_init)(0x200 := 0xF3, 0x201 := 0x0A)\<rparr>"

definition s_bcd :: State where
  \<comment> \<open>\<^verbatim>\<open>F033\<close> with V0 = 234 and I = 0x300\<close>
  "s_bcd = state_init\<lparr>memory := (memory state_init)(0x200 := 0xF0, 0x201 := 0x33),
                       regs_v := (regs_v state_init)(0 := 234),
                       reg_i := 0x300\<rparr>"

definition s_b :: State where
  \<comment> \<open>\<^verbatim>\<open>B123\<close>\<close>
  "s_b = state_init\<lparr>memory := (memory state_init)(0x200 := 0xB1, 0x201 := 0x23)\<rparr>"

section \<open>Properties\<close>

lemmas decode_defs =
  fetch_opcode_def nibble1_def nibble2_def nibble3_def nibble4_def nn_def nnn_def

lemmas const_defs = MEMORY_SIZE_def PROGRAM_START_def STACK_START_def FONT_START_def

subsection \<open>Register arithmetic: 8xy4 and 8xy5\<close>

text \<open>
  Both operands of the comparison are promoted to \<^verbatim>\<open>int\<close>, so the sum is never smaller
  than \<^verbatim>\<open>Vx\<close> and the difference never larger: unless \<^verbatim>\<open>x\<close> is 15, the flag register
  is 0 after either instruction, whatever the operands.
\<close>

lemma exec_8_add_flag:
  "nibble4 opcode = 4 \<Longrightarrow> nibble2 opcode \<noteq> 0xF \<Longrightarrow> regs_v (exec_8 s opcode) 0xF = 0"
  by (simp add: exec_8_def set_reg_def Let_def)

lemma exec_8_sub_flag:
  "nibble4 opcode = 5 \<Longrightarrow> nibble2 opcode \<noteq> 0xF \<Longrightarrow> regs_v (exec_8 s opcode) 0xF = 0"
  by (simp add: exec_8_def set_reg_def Let_def)

text \<open>
  Claim C1 (8xy4 sets VF to 1 exactly when Vx + Vy \<ge> 256, and Vx to (Vx + Vy) mod 256),
  at V0 = 200, V1 = 100: the sum is 300, the step stores 300 mod 256 = 44 in V0 and
  leaves VF at 0, where the claim requires 1.
\<close>

theorem opcode_8xy4_flag_at_200_100:
  "(case state_step 0 s_add of
      Inl e \<Rightarrow> False
    | Inr s' \<Rightarrow> unat (regs_v s_add 0) + unat (regs_v s_add 1) = 300
               \<and> regs_v s' 0 = 44 \<and> regs_v s' 0xF = 0)"
  by (simp add: state_step_def dispatch_def exec_8_def set_reg_def s_add_def state_init_def
        decode_defs const_defs)

text \<open>
  Claim C2 (8xy5 sets VF to 1 exactly when Vx \<ge> Vy, and Vx to (Vx - Vy) mod 256), at
  V0 = 5, V1 = 3: the step stores 2 in V0 and leaves VF at 0, where the claim requires 1.
\<close>

theorem opcode_8xy5_flag_at_5_3:
  "(case state_step 0 s_sub of
      Inl e \<Rightarrow> False
    | Inr s' \<Rightarrow> regs_v s_sub 0 \<ge> regs_v s_sub 1
               \<and> regs_v s' 0 = 2 \<and> regs_v s' 0xF = 0)"
  by (simp add: state_step_def dispatch_def exec_8_def set_reg_def s_sub_def state_init_def
        decode_defs const_defs)

subsection \<open>Which instructions write to memory\<close>

lemma draw_rows_memory:
  "draw_rows start_x start_y height row s = Inr s' \<Longrightarrow> memory s' = memory s"
proof (induction start_x start_y height row s rule: draw_rows.induct)
  case (1 start_x start_y height row s)
  from "1.prems" show ?case
    by (subst (asm) draw_rows.simps)
       (auto simp add: Let_def dest!: "1.IH"[OF _ refl _ _ refl refl refl refl refl]
             split: if_splits)
qed

lemma exec_8_memory: "memory (exec_8 s opcode) = memory s"
  by (simp add: exec_8_def set_reg_def Let_def)

lemma exec_E_memory: "exec_E s opcode = (s1, b) \<Longrightarrow> memory s1 = memory s"
  by (auto simp add: exec_E_def Let_def split: if_splits)

lemma exec_0_memory:
  "opcode \<noteq> 0x00EE \<Longrightarrow> exec_0 s opcode = Inr (s1, b) \<Longrightarrow> memory s1 = memory s"
  by (auto simp add: exec_0_def instruction_clear_video_def split: if_splits)

lemma exec_F_memory:
  assumes "exec_F s opcode = Inr (s1, b)"
    and "nn opcode = 0x33 \<longrightarrow> a < unat (reg_i s) \<or> unat (reg_i s) + 2 < a"
    and "nn opcode = 0x55 \<longrightarrow> a < unat (reg_i s) \<or> unat (reg_i s) + nibble2 opcode < a"
  shows "memory s1 a = memory s a"
  using assms
  by (auto simp add: exec_F_def set_reg_def instruction_decimal_digits_def Let_def
           split: if_splits)

text \<open>
  Apart from the two call-stack instructions, only Fx33 and Fx55 write to memory, and
  only inside \<open>[I, I + 3)\<close> and \<open>[I, I + x + 1)\<close>.
\<close>

lemma dispatch_memory:
  assumes "dispatch rnd s opcode = Inr (s1, b)"
    and "nibble1 opcode \<noteq> 0x2" and "opcode \<noteq> 0x00EE"
    and "nibble1 opcode = 0xF \<and> nn opcode = 0x33
           \<longrightarrow> a < unat (reg_i s) \<or> unat (reg_i s) + 2 < a"
    and "nibble1 opcode = 0xF \<and> nn opcode = 0x55
           \<longrightarrow> a < unat (reg_i s) \<or> unat (reg_i s) + nibble2 opcode < a"
  shows "memory s1 a = memory s a"
proof -
  consider "nibble1 opcode = 0x0" | "nibble1 opcode = 0x8" | "nibble1 opcode = 0xD"
    | "nibble1 opcode = 0xE" | "nibble1 opcode = 0xF"
    | "nibble1 opcode \<notin> {0x0, 0x2, 0x8, 0xD, 0xE, 0xF}"
    using assms(2) by auto
  then show ?thesis
  proof cases
    case 1
    with assms(1,3) show ?thesis by (simp add: dispatch_def exec_0_memory)
  next
    case 2
    with assms(1) show ?thesis by (auto simp add: dispatch_def exec_8_memory)
  next
    case 3
    with assms(1) show ?thesis
      by (auto simp add: dispatch_def instruction_draw_sprite_def Let_def
               dest!: draw_rows_memory split: sum.splits)
  next
    case 4
    with assms(1) show ?thesis by (auto simp add: dispatch_def dest: exec_E_memory)
  next
    case 5
    with assms(1,4,5) show ?thesis by (simp add: dispatch_def exec_F_memory)
  next
    case 6
    with assms(1) show ?thesis
      by (auto simp add: dispatch_def set_reg_def Let_def split: if_splits)
  qed
qed

subsection \<open>The font region\<close>

text \<open>
  Claim C3 (after initialisation no step changes a byte of the font region 0x50..0x9F)
  fails on the program \<^verbatim>\<open>A050 F055\<close>: the first step points I at the font table, the
  second stores V0 = 0 over the first byte of glyph 0, which was 0xF0.
\<close>

theorem font_region_overwritten_by_store:
  "0x50 \<in> font_region \<and> memory s_store_font 0x50 = FONTS ! 0
   \<and> \<not> isl (state_step 0 s_store_font)
   \<and> memory (projr (state_step 0 s_store_font)) 0x50 = 0xF0
   \<and> \<not> isl (state_step 0 (projr (state_step 0 s_store_font)))
   \<and> memory (projr (state_step 0 (projr (state_step 0 s_store_font)))) 0x50 = 0x00"
  by (simp add: state_step_def dispatch_def exec_F_def s_store_font_def state_init_def
        font_region_def FONTS_def decode_defs const_defs)

text \<open>
  Claim C3 as amended: a step that executes neither a call (2nnn) nor a return (00EE)
  leaves every byte of the font region as it was, provided that, when the instruction
  is Fx33 or Fx55, the bytes it stores (\<open>[I, I + 3)\<close>, \<open>[I, I + x + 1)\<close>) lie outside
  the region. Nothing is said about the two call-stack instructions.
\<close>

theorem font_region_unchanged_by_step:
  assumes "state_step rnd s = Inr s'"
    and "nibble1 (fetch_opcode s) \<noteq> 0x2" and "fetch_opcode s \<noteq> 0x00EE"
    and "nibble1 (fetch_opcode s) = 0xF \<and> nn (fetch_opcode s) = 0x33
           \<longrightarrow> unat (reg_i s) + 2 < FONT_START \<or> FONT_START + length FONTS \<le> unat (reg_i s)"
    and "nibble1 (fetch_opcode s) = 0xF \<and> nn (fetch_opcode s) = 0x55
           \<longrightarrow> unat (reg_i s) + nibble2 (fetch_opcode s) < FONT_START
               \<or> FONT_START + length FONTS \<le> unat (reg_i s)"
  shows "\<forall>a \<in> font_region. memory s' a = memory s a"
proof
  fix a assume a: "a \<in> font_region"
  show "memory s' a = memory s a"
  proof (cases "unat (pc s) \<ge> MEMORY_SIZE - 1")
    case True
    with assms(1) show ?thesis by (simp add: state_step_def)
  next
    case False
    with assms(1) obtain s1 b where d: "dispatch rnd s (fetch_opcode s) = Inr (s1, b)"
      and s': "s' = (if b then s1\<lparr>pc := pc s1 + 2\<rparr> else s1)"
      by (auto simp add: state_step_def split: sum.splits)
    have "memory s1 a = memory s a"
      using a assms(4,5)
      by (intro dispatch_memory[OF d assms(2,3)]) (auto simp add: font_region_def)
    with s' show ?thesis by simp
  qed
qed

text \<open>
  The amended claim at the state \<open>s_bcd\<close>: Fx33 with I = 0x300 stores the digits of 234
  at 0x300..0x302 and the font region keeps its bytes.
\<close>

theorem font_region_unchanged_by_step_witness:
  "state_step 0 s_bcd =
     Inr (s_bcd\<lparr>memory := (memory s_bcd)(0x300 := 2, 0x301 := 3, 0x302 := 4), pc := 0x202\<rparr>)
   \<and> nibble1 (fetch_opcode s_bcd) \<noteq> 0x2 \<and> fetch_opcode s_bcd \<noteq> 0x00EE
   \<and> nibble1 (fetch_opcode s_bcd) = 0xF \<and> nn (fetch_opcode s_bcd) = 0x33
   \<and> FONT_START + length FONTS \<le> unat (reg_i s_bcd)
   \<and> 0x50 \<in> font_region \<and> 0x9F \<in> font_region
   \<and> memory (s_bcd\<lparr>memory := (memory s_bcd)(0x300 := 2, 0x301 := 3, 0x302 := 4),
                     pc := 0x202\<rparr>) 0x50 = memory s_bcd 0x50
   \<and> memory (s_bcd\<lparr>memory := (memory s_bcd)(0x300 := 2, 0x301 := 3, 0x302 := 4),
                     pc := 0x202\<rparr>) 0x9F = memory s_bcd 0x9F"
proof -
  have step: "state_step 0 s_bcd =
     Inr (s_bcd\<lparr>memory := (memory s_bcd)(0x300 := 2, 0x301 := 3, 0x302 := 4), pc := 0x202\<rparr>)"
    by (simp add: state_step_def dispatch_def exec_F_def instruction_decimal_digits_def
          s_bcd_def state_init_def decode_defs const_defs)
  have op: "fetch_opcode s_bcd = 0xF033"
    by (simp add: s_bcd_def state_init_def decode_defs const_defs)
  have n1: "nibble1 (fetch_opcode s_bcd) = 0xF" and n: "nn (fetch_opcode s_bcd) = 0x33"
    by (simp_all add: op nibble1_def nn_def)
  have i: "FONT_START + length FONTS \<le> unat (reg_i s_bcd)"
    by (simp add: s_bcd_def FONTS_def const_defs)
  have r: "0x50 \<in> font_region" "0x9F \<in> font_region"
    by (simp_all add: font_region_def FONTS_def const_defs)
  have "\<forall>a \<in> font_region.
         memory (s_bcd\<lparr>memory := (memory s_bcd)(0x300 := 2, 0x301 := 3, 0x302 := 4),
                       pc := 0x202\<rparr>) a = memory s_bcd a"
    using n1 n i by (intro font_region_unchanged_by_step[OF step]) (simp_all add: op)
  with step n1 n i r show ?thesis by (simp add: op)
qed

text \<open>
  The call-stack instructions, which the amended claim leaves out: the stack starts at
  \<^verbatim>\<open>STACK_START = 0x52\<close>, inside the font region, and the first call of a program
  writes its return address 0x0202 over bytes 2 and 3 of glyph 0.
\<close>

lemma call_overwrites_font_bytes:
  "0x52 \<in> font_region \<and> 0x53 \<in> font_region \<and>
   memory s_call 0x52 = 0x90 \<and> memory s_call 0x53 = 0x90 \<and>
   (case state_step 0 s_call of
      Inl e \<Rightarrow> False
    | Inr s' \<Rightarrow> memory s' 0x52 = 0x02 \<and> memory s' 0x53 = 0x02
               \<and> sp s' = 0x54 \<and> pc s' = 0x300)"
  by (simp add: state_step_def dispatch_def state_push_to_stack_def s_call_def state_init_def
        font_region_def FONTS_def decode_defs const_defs)

subsection \<open>Fx29: the glyph address\<close>

text \<open>
  Claim C4 (for Vx in 0..15, Fx29 sets I so that the five bytes at I are the glyph of
  digit Vx, which starts at font base + 5 * Vx), at V1 = 1: the step sets I to
  \<^verbatim>\<open>FONT_START + 1\<close> = 0x51, and the five bytes there are the last four bytes of glyph 0
  followed by the first byte of glyph 1, not the glyph of digit 1.
\<close>

theorem opcode_Fx29_glyph_at_digit_1:
  "(case state_step 0 s_glyph of
      Inl e \<Rightarrow> False
    | Inr s' \<Rightarrow> reg_i s' = 0x51
        \<and> map (\<lambda>k. memory s' (unat (reg_i s') + k)) [0, 1, 2, 3, 4]
            = [0x90, 0x90, 0x90, 0xF0, 0x20]
        \<and> take 5 (drop (5 * unat (regs_v s_glyph 1)) FONTS)
            = [0x20, 0x60, 0x20, 0x20, 0x70])"
  by (simp add: state_step_def dispatch_def exec_F_def s_glyph_def state_init_def FONTS_def
        decode_defs const_defs)

subsection \<open>Dxyn: horizontal placement\<close>

text \<open>
  The sprite byte is shifted left by 55, which puts its most significant bit at bit 62,
  and then right by the starting column: the bit of the starting column itself
  (bit \<open>63 - start_x\<close>) is never part of the mask.
\<close>

lemma sprite_mask_misses_start_column:
  "\<not> bit (drop_bit start_x (push_bit 55 (ucast (b :: 8 word) :: 64 word))) (63 - start_x)"
  by (auto simp add: bit_simps dest: bit_imp_le_length)

text \<open>
  Claim C5 (the most significant bit of a sprite row lands at column Vx mod 64, column 0
  being bit 63; a row drawn at column 60 puts exactly its top 4 bits at columns 60 to 63),
  at the row 0xFF drawn at column 60 on an empty display: the step sets bits 2, 1 and 0,
  that is columns 61, 62 and 63, and leaves column 60 (bit 3) off. Only the top 3 bits
  of the row are drawn.
\<close>

theorem draw_sprite_row_at_column_60:
  "(case state_step 0 s_draw of
      Inl e \<Rightarrow> False
    | Inr s' \<Rightarrow> video_buffer s' 0 = 0x7 \<and> \<not> bit (video_buffer s' 0) (63 - 60))"
  by (simp add: state_step_def dispatch_def instruction_draw_sprite_def draw_rows.simps
        s_draw_def state_init_def decode_defs const_defs)

subsection \<open>The end of memory\<close>

text \<open>
  Claim C6 (with \<^verbatim>\<open>pc \<ge> MEMORY_SIZE - 1\<close> a step changes nothing else and sets the
  end-of-program flag), on the program \<^verbatim>\<open>1FFF\<close>: the first step jumps to 0xFFF, the
  second returns the state as it is, with the flag still false.
\<close>

theorem step_at_end_of_memory_keeps_flag:
  "state_step 0 s_jump_end = Inr (s_jump_end\<lparr>pc := 0xFFF\<rparr>) \<and>
   unat (pc (s_jump_end\<lparr>pc := 0xFFF\<rparr>)) \<ge> MEMORY_SIZE - 1 \<and>
   state_step 0 (s_jump_end\<lparr>pc := 0xFFF\<rparr>) = Inr (s_jump_end\<lparr>pc := 0xFFF\<rparr>) \<and>
   end_of_program (s_jump_end\<lparr>pc := 0xFFF\<rparr>) = False"
  by (simp add: state_step_def dispatch_def s_jump_end_def state_init_def
        decode_defs const_defs)

text \<open>The same on every state: at the end of memory a step is the identity.\<close>

lemma step_at_end_of_memory_identity:
  "unat (pc s) \<ge> MEMORY_SIZE - 1 \<Longrightarrow> state_step rnd s = Inr s"
  by (simp add: state_step_def)

subsection \<open>Fx0A: waiting for a key\<close>

text \<open>
  Claim C7: when the instruction at \<^verbatim>\<open>pc\<close> is Fx0A and the key code is the no-key value
  16, a step returns the state it was given (program counter, registers and everything
  else), so the next step executes the same instruction again; with any other key code
  \<open>k\<close> the step stores \<open>k\<close> in Vx, changes nothing else and moves \<^verbatim>\<open>pc\<close> forward by 2.
\<close>

theorem opcode_Fx0A_blocks_until_key:
  assumes "unat (pc s) < MEMORY_SIZE - 1"
    and "nibble1 (fetch_opcode s) = 0xF" and "nn (fetch_opcode s) = 0x0A"
  shows "state_step rnd s =
           Inr (if keycode s = 16 then s
                else s\<lparr>regs_v := (regs_v s)(nibble2 (fetch_opcode s) := keycode s),
                       pc := pc s + 2\<rparr>)
         \<and> unat (pc s + 2) = unat (pc s) + 2"
  using assms
  by (simp add: state_step_def dispatch_def exec_F_def set_reg_def MEMORY_SIZE_def
        unat_word_ariths)

theorem opcode_Fx0A_blocks_until_key_witness:
  "unat (pc s_wait) < MEMORY_SIZE - 1
   \<and> nibble1 (fetch_opcode s_wait) = 0xF \<and> nn (fetch_opcode s_wait) = 0x0A
   \<and> keycode s_wait = 16
   \<and> state_step 0 s_wait = Inr s_wait
   \<and> state_step 0 (s_wait\<lparr>keycode := 7\<rparr>)
       = Inr (s_wait\<lparr>keycode := 7, regs_v := (regs_v s_wait)(3 := 7), pc := 0x202\<rparr>)"
proof -
  have p: "pc s_wait = 0x200" and k: "keycode s_wait = 16"
    by (simp_all add: s_wait_def state_init_def const_defs)
  have op: "fetch_opcode s_wait = 0xF30A"
    by (simp add: s_wait_def state_init_def fetch_opcode_def const_defs)
  have op': "fetch_opcode (s_wait\<lparr>keycode := 7\<rparr>) = 0xF30A"
    using op by (simp add: fetch_opcode_def)
  have h1: "unat (pc s_wait) < MEMORY_SIZE - 1" by (simp add: p MEMORY_SIZE_def)
  have h2: "nibble1 (fetch_opcode s_wait) = 0xF" by (simp add: op nibble1_def)
  have h3: "nn (fetch_opcode s_wait) = 0x0A" by (simp add: op nn_def)
  have x: "nibble2 (0xF30A :: 16 word) = 3" by (simp add: nibble2_def)
  have a: "state_step 0 s_wait = Inr s_wait"
    using opcode_Fx0A_blocks_until_key[OF h1 h2 h3, of 0] k by simp
  have b: "state_step 0 (s_wait\<lparr>keycode := 7\<rparr>)
       = Inr (s_wait\<lparr>keycode := 7, regs_v := (regs_v s_wait)(3 := 7), pc := 0x202\<rparr>)"
    using opcode_Fx0A_blocks_until_key[of "s_wait\<lparr>keycode := 7\<rparr>" 0] h1 h2 h3
    by (simp add: op' op x p)
  from h1 h2 h3 k a b show ?thesis by blast
qed

subsection \<open>The call stack: push, then pop\<close>

text \<open>
  The two bytes that \<^verbatim>\<open>state_push_to_stack\<close> stores, read back the way
  \<^verbatim>\<open>state_pop_from_stack\<close> reads them, give the value that was pushed.
\<close>

lemma byte_swap_read:
  fixes v :: "16 word"
  shows "(word_of_int
           (push_bit 8 (uint (ucast (word_of_int (push_bit 8 (uint v) OR drop_bit 8 (uint v))
                                       :: 16 word) :: 8 word))
            OR uint (ucast (drop_bit 8 (word_of_int (push_bit 8 (uint v) OR drop_bit 8 (uint v))
                                          :: 16 word)) :: 8 word)) :: 16 word) = v"
    (is "?lhs = v")
proof (rule bit_word_eqI)
  fix n assume n: "n < LENGTH(16)"
  have hi: "\<not> bit v (16 + k)" for k
    using bit_imp_le_length[of v "16 + k"] by auto
  show "bit ?lhs n = bit v n"
    using n hi by (auto simp add: bit_simps)
qed

text \<open>
  Claim C8: on every state whose stack pointer addresses two bytes inside memory, and
  for every 16-bit address A, the push succeeds and moves the stack pointer forward by
  2, and the pop that follows returns A and puts the stack pointer back.
\<close>

theorem push_pop_roundtrip:
  assumes "unat (sp s) + 1 < MEMORY_SIZE"
  shows "(case state_push_to_stack s A of
            Inl e \<Rightarrow> False
          | Inr s1 \<Rightarrow> sp s1 = sp s + 2 \<and> unat (sp s1) = unat (sp s) + 2 \<and>
              (case state_pop_from_stack s1 of
                 Inl e \<Rightarrow> False
               | Inr (address, s2) \<Rightarrow> address = A \<and> sp s2 = sp s))"
proof -
  have nowrap: "unat (sp s + 2) = unat (sp s) + 2"
    using assms by (simp add: MEMORY_SIZE_def unat_word_ariths)
  show ?thesis
    using assms nowrap
    by (simp add: state_push_to_stack_def state_pop_from_stack_def Let_def byte_swap_read)
qed

theorem push_pop_roundtrip_witness:
  "unat (sp state_init) + 1 < MEMORY_SIZE
   \<and> \<not> isl (state_push_to_stack state_init 0x0202)
   \<and> sp (projr (state_push_to_stack state_init 0x0202)) = 0x54
   \<and> \<not> isl (state_pop_from_stack (projr (state_push_to_stack state_init 0x0202)))
   \<and> fst (projr (state_pop_from_stack (projr (state_push_to_stack state_init 0x0202))))
       = 0x0202
   \<and> sp (snd (projr (state_pop_from_stack (projr (state_push_to_stack state_init 0x0202)))))
       = 0x52"
proof -
  have h: "unat (sp state_init) + 1 < MEMORY_SIZE"
    by (simp add: state_init_def const_defs)
  have p: "sp state_init = 0x52"
    by (simp add: state_init_def const_defs)
  from push_pop_roundtrip[OF h, of "0x0202"] h p show ?thesis
    by (auto split: sum.splits)
qed

subsection \<open>Fx33: decimal digits\<close>

lemma digits_linear:
  "(n::nat) = 10 * q + r \<Longrightarrow> q = 10 * h + t \<Longrightarrow> 100 * h + 10 * t + r = n"
  by simp

lemma digits_nat: "100 * (n div 100) + 10 * ((n div 10) mod 10) + n mod 10 = (n::nat)"
proof -
  have ones: "n = 10 * (n div 10) + n mod 10" by simp
  have "n div 10 div 10 = n div 100" by (simp add: div_mult2_eq)
  moreover have "n div 10 = 10 * (n div 10 div 10) + (n div 10) mod 10" by simp
  ultimately have tens: "n div 10 = 10 * (n div 100) + (n div 10) mod 10" by simp
  show ?thesis by (rule digits_linear[OF ones tens])
qed

lemma decimal_digits_step:
  assumes "unat (pc s) < MEMORY_SIZE - 1"
    and "nibble1 (fetch_opcode s) = 0xF" and "nn (fetch_opcode s) = 0x33"
    and "unat (reg_i s) + 2 < MEMORY_SIZE"
  shows "state_step rnd s =
     Inr (s\<lparr>memory := (memory s)
               (unat (reg_i s) := regs_v s (nibble2 (fetch_opcode s)) div 100,
                unat (reg_i s) + 1 := (regs_v s (nibble2 (fetch_opcode s)) div 10) mod 10,
                unat (reg_i s) + 2 := regs_v s (nibble2 (fetch_opcode s)) mod 10),
             pc := pc s + 2\<rparr>)"
  using assms
  by (simp add: state_step_def dispatch_def exec_F_def instruction_decimal_digits_def Let_def)

text \<open>
  Claim C9: when the instruction at \<^verbatim>\<open>pc\<close> is Fx33 and the three bytes at I are inside
  memory, the step returns a state in which \<open>memory[I]\<close>, \<open>memory[I + 1]\<close>,
  \<open>memory[I + 2]\<close> are \<open>v div 100\<close>, \<open>(v div 10) mod 10\<close> and \<open>v mod 10\<close> for the value
  \<open>v\<close> of Vx, these three digits give \<open>v\<close> back by place value, every other byte of
  memory is as before, and nothing else has changed but \<^verbatim>\<open>pc\<close>, which has moved by 2.
\<close>

theorem opcode_Fx33_decimal_digits:
  assumes "unat (pc s) < MEMORY_SIZE - 1"
    and "nibble1 (fetch_opcode s) = 0xF" and "nn (fetch_opcode s) = 0x33"
    and "unat (reg_i s) + 2 < MEMORY_SIZE"
  shows "(case state_step rnd s of
            Inl e \<Rightarrow> False
          | Inr s' \<Rightarrow>
              (let v = regs_v s (nibble2 (fetch_opcode s)); i = unat (reg_i s) in
               unat (memory s' i) = unat v div 100 \<and>
               unat (memory s' (i + 1)) = (unat v div 10) mod 10 \<and>
               unat (memory s' (i + 2)) = unat v mod 10 \<and>
               100 * unat (memory s' i) + 10 * unat (memory s' (i + 1))
                 + unat (memory s' (i + 2)) = unat v \<and>
               (\<forall>a. a \<noteq> i \<and> a \<noteq> i + 1 \<and> a \<noteq> i + 2 \<longrightarrow> memory s' a = memory s a) \<and>
               s'\<lparr>memory := memory s, pc := pc s\<rparr> = s \<and> pc s' = pc s + 2))"
proof -
  let ?v = "regs_v s (nibble2 (fetch_opcode s))"
  let ?i = "unat (reg_i s)"
  have step: "state_step rnd s =
     Inr (s\<lparr>memory := (memory s)(?i := ?v div 100, ?i + 1 := (?v div 10) mod 10,
                                   ?i + 2 := ?v mod 10),
             pc := pc s + 2\<rparr>)"
    by (rule decimal_digits_step[OF assms])
  have place_value:
    "100 * (unat ?v div 100) + 10 * ((unat ?v div 10) mod 10) + unat ?v mod 10 = unat ?v"
    by (rule digits_nat)
  show ?thesis
    unfolding step using place_value
    by (simp add: Let_def unat_div unat_mod)
qed

theorem opcode_Fx33_decimal_digits_witness:
  "unat (pc s_bcd) < MEMORY_SIZE - 1
   \<and> nibble1 (fetch_opcode s_bcd) = 0xF \<and> nn (fetch_opcode s_bcd) = 0x33
   \<and> unat (reg_i s_bcd) + 2 < MEMORY_SIZE
   \<and> regs_v s_bcd (nibble2 (fetch_opcode s_bcd)) = 234
   \<and> \<not> isl (state_step 0 s_bcd)
   \<and> memory (projr (state_step 0 s_bcd)) 0x300 = 2
   \<and> memory (projr (state_step 0 s_bcd)) 0x301 = 3
   \<and> memory (projr (state_step 0 s_bcd)) 0x302 = 4
   \<and> memory (projr (state_step 0 s_bcd)) 0x303 = memory s_bcd 0x303
   \<and> pc (projr (state_step 0 s_bcd)) = 0x202"
proof -
  have op: "fetch_opcode s_bcd = 0xF033"
    by (simp add: s_bcd_def state_init_def fetch_opcode_def const_defs)
  have h1: "unat (pc s_bcd) < MEMORY_SIZE - 1"
    by (simp add: s_bcd_def state_init_def const_defs)
  have h2: "nibble1 (fetch_opcode s_bcd) = 0xF" by (simp add: op nibble1_def)
  have h3: "nn (fetch_opcode s_bcd) = 0x33" by (simp add: op nn_def)
  have h4: "unat (reg_i s_bcd) + 2 < MEMORY_SIZE" by (simp add: s_bcd_def const_defs)
  have x: "nibble2 (fetch_opcode s_bcd) = 0" by (simp add: op nibble2_def)
  have v: "regs_v s_bcd (nibble2 (fetch_opcode s_bcd)) = 234"
    unfolding x by (simp add: s_bcd_def)
  have i: "unat (reg_i s_bcd) = 0x300" and p: "pc s_bcd = 0x200"
    by (simp_all add: s_bcd_def state_init_def const_defs)
  have "\<not> isl (state_step 0 s_bcd)
   \<and> memory (projr (state_step 0 s_bcd)) 0x300 = 2
   \<and> memory (projr (state_step 0 s_bcd)) 0x301 = 3
   \<and> memory (projr (state_step 0 s_bcd)) 0x302 = 4
   \<and> memory (projr (state_step 0 s_bcd)) 0x303 = memory s_bcd 0x303
   \<and> pc (projr (state_step 0 s_bcd)) = 0x202"
    using opcode_Fx33_decimal_digits[OF h1 h2 h3 h4, of 0]
    by (auto simp add: v i p Let_def word_unat_eq_iff split: sum.splits)
  with h1 h2 h3 h4 v show ?thesis by blast
qed

subsection \<open>Leading nibble 0xB\<close>

text \<open>
  Claim C10: an opcode whose leading nibble is 0xB reaches the \<^verbatim>\<open>default\<close> branch of
  the \<^verbatim>\<open>switch\<close>; the step changes no register, neither I nor the stack pointer, no
  byte of memory, no pixel and no timer, and moves \<^verbatim>\<open>pc\<close> forward by exactly 2.
\<close>

theorem opcode_Bnnn_only_advances_pc:
  assumes "unat (pc s) < MEMORY_SIZE - 1" and "nibble1 (fetch_opcode s) = 0xB"
  shows "state_step rnd s = Inr (s\<lparr>pc := pc s + 2\<rparr>)
         \<and> unat (pc s + 2) = unat (pc s) + 2"
  using assms
  by (simp add: state_step_def dispatch_def MEMORY_SIZE_def unat_word_ariths)

theorem opcode_Bnnn_only_advances_pc_witness:
  "unat (pc s_b) < MEMORY_SIZE - 1 \<and> nibble1 (fetch_opcode s_b) = 0xB
   \<and> state_step 0 s_b = Inr (s_b\<lparr>pc := 0x202\<rparr>) \<and> unat (pc s_b + 2) = 0x202"
proof -
  have p: "pc s_b = 0x200" by (simp add: s_b_def state_init_def const_defs)
  have h1: "unat (pc s_b) < MEMORY_SIZE - 1" by (simp add: p MEMORY_SIZE_def)
  have h2: "nibble1 (fetch_opcode s_b) = 0xB"
    by (simp add: s_b_def state_init_def decode_defs const_defs)
  from opcode_Bnnn_only_advances_pc[OF h1 h2, of 0] h1 h2 p show ?thesis by simp
qed

text \<open>
  0xB is the only leading nibble without a \<^verbatim>\<open>case\<close>: a leading nibble is below 16, and
  the \<^verbatim>\<open>switch\<close> names 0 to 0xA and 0xC to 0xF.
\<close>

lemma nibble1_bound: "nibble1 opcode < 16"
proof -
  have "unat opcode < 2 ^ 16"
    using unsigned_less[of opcode, where 'a = nat] by simp
  then have "unat opcode div 2 ^ 12 < 16" by simp
  then show ?thesis by (simp add: nibble1_def drop_bit_eq_div unat_div)
qed

end
